theory Spec2Isabelle
  imports Main "HOL-Library.AList" "HOL-Library.Sublist"
begin

section \<open>Values, exceptions and the business state\<close>

text \<open>
  The program is Python. Values that cross the tool-call boundary (parsed arguments,
  function results) are JSON values. A float is carried as the text of its literal:
  the code never computes with one (\<open>unit_cost\<close> is only stored and returned).
  A dict keeps its insertion order, so it is an association list.
\<close>

datatype json =
    JNull
  | JBool bool
  | JInt int
  | JFloat string
  | JStr string
  | JArr "json list"
  | JObj "(string \<times> json) list"

text \<open>The exceptions the modelled code can raise, each with the text \<open>str(e)\<close> needs.\<close>

datatype pyerr =
    KeyError string
  | TypeError string
  | JSONDecodeError
  | APIError string
  | OSError string

text \<open>
  \<open>str(e)\<close>: a \<open>KeyError\<close> prints the repr of its key, the others their message.
  The repr is written with single quotes, as Python writes it for a key that holds no
  single quote itself.
\<close>

fun str_exc :: "pyerr \<Rightarrow> string" where
  "str_exc (KeyError k) = [CHR 0x27] @ k @ [CHR 0x27]"
| "str_exc (TypeError m) = m"
| "str_exc JSONDecodeError = ''Expecting value''"
| "str_exc (APIError m) = m"
| "str_exc (OSError m) = m"

text \<open>
  The business state is the dict built by \<open>Context._create_context_from_config\<close>
  (\<open>context.py\<close>) and by the module-level \<open>context\<close> of the prototype: inventory
  levels, orders, suppliers and warehouse capacity. The keys \<open>purchase_orders\<close>,
  \<open>scheduled_processing\<close> and \<open>customer_notifications\<close> are absent until a
  function creates them (\<open>None\<close> here).
\<close>

record item =
  unit_cost :: json
  min_order :: int

record supplier =
  supplier_name :: string
  lead_time_days :: int
  items :: "(string \<times> item) list"

record warehouse =
  processing :: int
  shipping :: int

record purchase_order =
  po_supplier_id :: string
  po_sku :: string
  po_quantity :: int
  po_expected_delivery :: int
  po_lead_time_days :: int

record scheduled =
  sp_priority :: string
  sp_status :: string
  sp_scheduled_at :: string

record notification =
  nt_customer_id :: string
  nt_message :: string
  nt_sent_at :: string

record ctx =
  inventory :: "(string \<times> int) list"
  orders :: json
  suppliers :: "(string \<times> supplier) list"
  warehouse_capacity :: warehouse
  purchase_orders :: "(string \<times> purchase_order) list option"
  scheduled_processing :: "(string \<times> scheduled) list option"
  customer_notifications :: "(string \<times> notification) list option"

text \<open>The default configuration of \<open>context.py\<close> (the prototype's initial \<open>context\<close>).\<close>

definition default_orders :: json where
  "default_orders = JArr
     [JObj [(''order_id'', JStr ''ORD001''),
            (''items'', JArr [JObj [(''sku'', JStr ''SKU001''), (''quantity'', JInt 30)],
                              JObj [(''sku'', JStr ''SKU002''), (''quantity'', JInt 20)]]),
            (''customer_id'', JStr ''CUST001''),
            (''shipping_address'', JStr ''New York, NY''),
            (''priority'', JStr ''Standard'')],
      JObj [(''order_id'', JStr ''ORD002''),
            (''items'', JArr [JObj [(''sku'', JStr ''SKU002''), (''quantity'', JInt 50)]]),
            (''customer_id'', JStr ''CUST002''),
            (''shipping_address'', JStr ''Los Angeles, CA''),
            (''priority'', JStr ''Express'')]]"

definition default_suppliers :: "(string \<times> supplier) list" where
  "default_suppliers =
     [(''SUP001'', \<lparr>supplier_name = ''Primary Supplier'', lead_time_days = 5,
         items = [(''SKU001'', \<lparr>unit_cost = JFloat ''10.0'', min_order = 50\<rparr>),
                  (''SKU002'', \<lparr>unit_cost = JFloat ''15.0'', min_order = 30\<rparr>)]\<rparr>),
      (''SUP002'', \<lparr>supplier_name = ''Secondary Supplier'', lead_time_days = 7,
         items = [(''SKU002'', \<lparr>unit_cost = JFloat ''16.0'', min_order = 25\<rparr>),
                  (''SKU003'', \<lparr>unit_cost = JFloat ''20.0'', min_order = 40\<rparr>)]\<rparr>)]"

definition create_context :: ctx where
  "create_context =
     \<lparr>inventory = [(''SKU001'', 100), (''SKU002'', 75), (''SKU003'', 50)],
      orders = default_orders,
      suppliers = default_suppliers,
      warehouse_capacity = \<lparr>processing = 200, shipping = 150\<rparr>,
      purchase_orders = None,
      scheduled_processing = None,
      customer_notifications = None\<rparr>"

text \<open>\<open>str(n)\<close> of an integer: its decimal digits, with a minus sign when negative.\<close>

fun str_nat :: "nat \<Rightarrow> string" where
  "str_nat n =
     (if n < 10 then [char_of (48 + n)] else str_nat (n div 10) @ [char_of (48 + n mod 10)])"

declare str_nat.simps [simp del]

definition str_int :: "int \<Rightarrow> string" where
  "str_int i = (if i < 0 then CHR ''-'' # str_nat (nat (- i)) else str_nat (nat i))"

section \<open>The business functions (\<open>functions.py\<close>)\<close>

text \<open>
  Each function of \<open>BusinessFunctions\<close> takes the state and its arguments at their
  annotated types and returns the result (or the exception raised) with the state it
  leaves. The prototype's module-level functions have the same bodies over the global
  \<open>context\<close>. \<open>datetime.now().isoformat()\<close> is the argument \<open>now\<close>.
\<close>

type_synonym outcome = "(pyerr + json) \<times> ctx"

definition dict_get :: "('k \<times> 'v) list \<Rightarrow> 'k \<Rightarrow> 'v \<Rightarrow> 'v" where
  "dict_get d k dflt = (case map_of d k of None \<Rightarrow> dflt | Some v \<Rightarrow> v)"

definition check_inventory :: "ctx \<Rightarrow> string \<Rightarrow> outcome" where
  "check_inventory c sku =
     (let quantity = dict_get (inventory c) sku 0
      in (Inr (JObj [(''sku'', JStr sku), (''quantity'', JInt quantity)]), c))"

definition get_pending_orders :: "ctx \<Rightarrow> outcome" where
  "get_pending_orders c = (Inr (orders c), c)"

text \<open>
  \<open>self.context['inventory'][sku] -= quantity\<close> reads the entry before it writes it:
  on a missing key it raises \<open>KeyError\<close> and nothing is written.
\<close>

definition allocate_inventory :: "ctx \<Rightarrow> string \<Rightarrow> string \<Rightarrow> int \<Rightarrow> outcome" where
  "allocate_inventory c order_id sku quantity =
     (let available = dict_get (inventory c) sku 0
      in if available \<ge> quantity then
           (case map_of (inventory c) sku of
              None \<Rightarrow> (Inl (KeyError sku), c)
            | Some v \<Rightarrow>
                (Inr (JObj [(''order_id'', JStr order_id), (''allocated'', JInt quantity)]),
                 c\<lparr>inventory := AList.update sku (v - quantity) (inventory c)\<rparr>))
         else
           (Inr (JObj [(''order_id'', JStr order_id), (''allocated'', JInt 0),
                       (''error'', JStr ''Insufficient inventory'')]), c))"

definition list_suppliers :: "ctx \<Rightarrow> outcome" where
  "list_suppliers c =
     (Inr (JObj [(''suppliers'', JArr (map (\<lambda>kv. JStr (fst kv)) (suppliers c)))]), c)"

definition item_json :: "item \<Rightarrow> json" where
  "item_json i = JObj [(''unit_cost'', unit_cost i), (''min_order'', JInt (min_order i))]"

definition supplier_json :: "supplier \<Rightarrow> json" where
  "supplier_json s =
     JObj [(''name'', JStr (supplier_name s)),
           (''lead_time_days'', JInt (lead_time_days s)),
           (''items'', JObj (map (\<lambda>kv. (fst kv, item_json (snd kv))) (items s)))]"

definition get_supplier_catalog :: "ctx \<Rightarrow> string \<Rightarrow> outcome" where
  "get_supplier_catalog c supplier_id =
     (case map_of (suppliers c) supplier_id of
        Some s \<Rightarrow> (Inr (supplier_json s), c)
      | None \<Rightarrow>
          (Inr (JObj [(''error'', JStr (''Supplier '' @ supplier_id @ '' not found''))]), c))"

definition create_purchase_order :: "ctx \<Rightarrow> string \<Rightarrow> string \<Rightarrow> int \<Rightarrow> outcome" where
  "create_purchase_order c supplier_id sku quantity =
     (case map_of (suppliers c) supplier_id of
        None \<Rightarrow>
          (Inr (JObj [(''error'', JStr (''Supplier '' @ supplier_id @ '' not found''))]), c)
      | Some s \<Rightarrow>
          (case map_of (items s) sku of
             None \<Rightarrow>
               (Inr (JObj [(''error'', JStr (''SKU '' @ sku @ '' not available from supplier ''
                                              @ supplier_id))]), c)
           | Some i \<Rightarrow>
               if quantity < min_order i then
                 (Inr (JObj [(''error'', JStr (''Quantity below minimum order of ''
                                              @ str_int (min_order i)))]), c)
               else
                 (let po_number = ''PO_'' @ supplier_id @ ''_'' @ sku;
                      pos = (case purchase_orders c of None \<Rightarrow> [] | Some d \<Rightarrow> d);
                      po = \<lparr>po_supplier_id = supplier_id, po_sku = sku,
                            po_quantity = quantity,
                            po_expected_delivery = lead_time_days s,
                            po_lead_time_days = lead_time_days s\<rparr>
                  in (Inr (JObj [(''po_number'', JStr po_number),
                                 (''expected_delivery'', JInt (lead_time_days s))]),
                      c\<lparr>purchase_orders := Some (AList.update po_number po pos)\<rparr>))))"

definition check_processing_capacity :: "ctx \<Rightarrow> string \<Rightarrow> outcome" where
  "check_processing_capacity c time_frame =
     (let capacity = processing (warehouse_capacity c)
      in (Inr (JObj [(''time_frame'', JStr time_frame),
                     (''available_capacity'', JInt capacity)]), c))"

definition schedule_processing :: "string \<Rightarrow> ctx \<Rightarrow> string \<Rightarrow> string \<Rightarrow> outcome" where
  "schedule_processing now c order_id priority =
     (if processing (warehouse_capacity c) > 0 then
        (let wc = (warehouse_capacity c)\<lparr>processing := processing (warehouse_capacity c) - 1\<rparr>;
             sps = (case scheduled_processing c of None \<Rightarrow> [] | Some d \<Rightarrow> d);
             sp = \<lparr>sp_priority = priority, sp_status = ''Scheduled'', sp_scheduled_at = now\<rparr>
         in (Inr (JObj [(''order_id'', JStr order_id), (''status'', JStr ''Scheduled''),
                        (''priority'', JStr priority)]),
             c\<lparr>warehouse_capacity := wc,
               scheduled_processing := Some (AList.update order_id sp sps)\<rparr>))
      else (Inr (JObj [(''error'', JStr ''No processing capacity available'')]), c))"

definition notify_customer ::
  "string \<Rightarrow> ctx \<Rightarrow> string \<Rightarrow> string \<Rightarrow> string \<Rightarrow> outcome" where
  "notify_customer now c customer_id order_id message =
     (let ns = (case customer_notifications c of None \<Rightarrow> [] | Some d \<Rightarrow> d);
          n = \<lparr>nt_customer_id = customer_id, nt_message = message, nt_sent_at = now\<rparr>
      in (Inr (JObj [(''customer_id'', JStr customer_id), (''order_id'', JStr order_id),
                     (''notification_sent'', JBool True)]),
          c\<lparr>customer_notifications := Some (AList.update order_id n ns)\<rparr>))"

definition instructions_complete :: "ctx \<Rightarrow> outcome" where
  "instructions_complete c = (Inr (JObj [(''status'', JStr ''Instructions complete'')]), c)"


subsection \<open>Calling a function with keyword arguments\<close>

text \<open>
  The loops call \<open>function(**arguments)\<close> with the parsed JSON arguments. Python binds
  the keywords to the parameters and raises \<open>TypeError\<close> when the arguments are not
  a mapping, when a keyword is no parameter, or when a parameter (none has a default)
  is missing; the texts of these errors are the interpreter's and are shortened here.
  The functions are modelled at their annotated types: a value of another JSON type
  than the annotation is outside this model, and the wrapper reports it as a
  \<open>TypeError\<close> too (Python passes it on unchecked).
\<close>

fun bind_kwargs :: "string \<Rightarrow> string list \<Rightarrow> json \<Rightarrow> pyerr + json list" where
  "bind_kwargs fname params (JObj kv) =
     (case filter (\<lambda>k. k \<notin> set params) (map fst kv) of
        k # _ \<Rightarrow> Inl (TypeError (fname @ ''() got an unexpected keyword argument '' @ k))
      | [] \<Rightarrow>
          (case filter (\<lambda>p. map_of kv p = None) params of
             p # _ \<Rightarrow> Inl (TypeError (fname @ ''() missing required argument '' @ p))
           | [] \<Rightarrow> Inr (map (\<lambda>p. dict_get kv p JNull) params)))"
| "bind_kwargs fname params _ =
     Inl (TypeError (fname @ ''() argument after ** must be a mapping''))"

fun as_str :: "json \<Rightarrow> string option" where
  "as_str (JStr s) = Some s"
| "as_str _ = None"

fun as_int :: "json \<Rightarrow> int option" where
  "as_int (JInt i) = Some i"
| "as_int _ = None"

definition ill_typed :: "string \<Rightarrow> pyerr" where
  "ill_typed fname = TypeError (fname @ ''() argument of another type than annotated'')"

type_synonym callable = "json \<Rightarrow> ctx \<Rightarrow> outcome"

definition call0 :: "string \<Rightarrow> (ctx \<Rightarrow> outcome) \<Rightarrow> callable" where
  "call0 fname f args c =
     (case bind_kwargs fname [] args of
        Inl e \<Rightarrow> (Inl e, c)
      | Inr _ \<Rightarrow> f c)"

definition call_s :: "string \<Rightarrow> string \<Rightarrow> (ctx \<Rightarrow> string \<Rightarrow> outcome) \<Rightarrow> callable" where
  "call_s fname p1 f args c =
     (case bind_kwargs fname [p1] args of
        Inl e \<Rightarrow> (Inl e, c)
      | Inr vs \<Rightarrow>
          (case map as_str vs of
             [Some a] \<Rightarrow> f c a
           | _ \<Rightarrow> (Inl (ill_typed fname), c)))"

definition call_ss ::
  "string \<Rightarrow> string \<Rightarrow> string \<Rightarrow> (ctx \<Rightarrow> string \<Rightarrow> string \<Rightarrow> outcome) \<Rightarrow> callable" where
  "call_ss fname p1 p2 f args c =
     (case bind_kwargs fname [p1, p2] args of
        Inl e \<Rightarrow> (Inl e, c)
      | Inr vs \<Rightarrow>
          (case map as_str vs of
             [Some a, Some b] \<Rightarrow> f c a b
           | _ \<Rightarrow> (Inl (ill_typed fname), c)))"

definition call_sss ::
  "string \<Rightarrow> string \<Rightarrow> string \<Rightarrow> string \<Rightarrow>
   (ctx \<Rightarrow> string \<Rightarrow> string \<Rightarrow> string \<Rightarrow> outcome) \<Rightarrow> callable" where
  "call_sss fname p1 p2 p3 f args c =
     (case bind_kwargs fname [p1, p2, p3] args of
        Inl e \<Rightarrow> (Inl e, c)
      | Inr vs \<Rightarrow>
          (case map as_str vs of
             [Some a, Some b, Some d] \<Rightarrow> f c a b d
           | _ \<Rightarrow> (Inl (ill_typed fname), c)))"

definition call_ssi ::
  "string \<Rightarrow> string \<Rightarrow> string \<Rightarrow> string \<Rightarrow>
   (ctx \<Rightarrow> string \<Rightarrow> string \<Rightarrow> int \<Rightarrow> outcome) \<Rightarrow> callable" where
  "call_ssi fname p1 p2 p3 f args c =
     (case bind_kwargs fname [p1, p2, p3] args of
        Inl e \<Rightarrow> (Inl e, c)
      | Inr vs \<Rightarrow>
          (case (map as_str (take 2 vs), map as_int (drop 2 vs)) of
             ([Some a, Some b], [Some q]) \<Rightarrow> f c a b q
           | _ \<Rightarrow> (Inl (ill_typed fname), c)))"

text \<open>\<open>BusinessFunctions.get_function_mapping\<close>, in the order of the dict.\<close>

definition get_function_mapping :: "string \<Rightarrow> (string \<times> callable) list" where
  "get_function_mapping now =
     [(''check_inventory'', call_s ''check_inventory'' ''sku'' check_inventory),
      (''get_pending_orders'', call0 ''get_pending_orders'' get_pending_orders),
      (''allocate_inventory'',
         call_ssi ''allocate_inventory'' ''order_id'' ''sku'' ''quantity'' allocate_inventory),
      (''list_suppliers'', call0 ''list_suppliers'' list_suppliers),
      (''get_supplier_catalog'',
         call_s ''get_supplier_catalog'' ''supplier_id'' get_supplier_catalog),
      (''create_purchase_order'',
         call_ssi ''create_purchase_order'' ''supplier_id'' ''sku'' ''quantity''
           create_purchase_order),
      (''check_processing_capacity'',
         call_s ''check_processing_capacity'' ''time_frame'' check_processing_capacity),
      (''schedule_processing'',
         call_ss ''schedule_processing'' ''order_id'' ''priority'' (schedule_processing now)),
      (''notify_customer'',
         call_sss ''notify_customer'' ''customer_id'' ''order_id'' ''message''
           (notify_customer now)),
      (''instructions_complete'', call0 ''instructions_complete'' instructions_complete)]"


section \<open>The execution loops\<close>

text \<open>
  A tool-call request of a model response, the response, the messages of the
  model-visible transcript and the events of the logged list (\<open>message_list\<close>).
  \<open>tool_calls\<close> is \<open>[]\<close> when the response carries none (Python's \<open>None\<close>
  or an empty list; both are falsy).
\<close>

record tool_call =
  tc_id :: string
  tc_name :: string
  tc_arguments :: string

record response =
  content :: "string option"
  tool_calls :: "tool_call list"

datatype message =
    System string
  | AssistantContent "string option"
  | AssistantDict "string option" "tool_call list"
  | ToolNamed string string string
  | Tool string string

datatype event =
    Status string
  | PlanText string
  | ContextDump string ctx
  | Assistant "string option"
  | FunctionCall string json
  | FunctionResponse string json
  | ToolCallLog string string
  | ToolResponseLog string string

text \<open>
  What the loops get from outside the repository: the model service
  (\<open>client.chat.completions.create\<close>, which answers the transcript sent or fails),
  \<open>json.loads\<close> (\<open>None\<close> when it raises \<open>JSONDecodeError\<close>), \<open>json.dumps\<close> and
  the clock.
\<close>

record env =
  client_create :: "message list \<Rightarrow> pyerr + response"
  json_loads :: "string \<Rightarrow> json option"
  json_dumps :: "json \<Rightarrow> string"
  now :: string

text \<open>
  The state a run works on: the business state, the transcript \<open>messages\<close> and the
  logged events \<open>message_list\<close>.
\<close>

record exec_state =
  the_context :: ctx
  messages :: "message list"
  message_list :: "event list"

text \<open>\<open>append_message\<close> (\<open>utils.py\<close>): the event is appended to the list (and printed).\<close>

definition append_message :: "event \<Rightarrow> exec_state \<Rightarrow> exec_state" where
  "append_message ev st = st\<lparr>message_list := message_list st @ [ev]\<rparr>"

definition append_transcript :: "message \<Rightarrow> exec_state \<Rightarrow> exec_state" where
  "append_transcript m st = st\<lparr>messages := messages st @ [m]\<rparr>"

text \<open>
  The prompt template \<open>ModelConfig.EXECUTOR_PROMPT\<close> with the plan's text in the
  place of \<open>{plan}\<close>.
\<close>

definition EXECUTOR_PROMPT :: "string \<Rightarrow> string" where
  "EXECUTOR_PROMPT plan_text =
     [CHR 0x0A] @ ''You are a policy execution assistant responsible for implementing the given plan. Do not analyze the plan, just execute it.''
     @ [CHR 0x0A] @ ''Follow each step carefully, calling the appropriate provided functions to complete the tasks.''
     @ [CHR 0x0A] @ ''Explain and justify each step you take.''
     @ [CHR 0x0A, CHR 0x0A] @ ''PLAN:'' @ [CHR 0x0A] @ plan_text @ [CHR 0x0A]"

definition before_text :: string where
  "before_text = ''Before the plan is executed, here is the current context:''"

definition after_text :: string where
  "after_text = ''After the plan is executed, here is the current context:''"

text \<open>How a run ends: it returns, or an exception leaves it; either way with a state.\<close>

datatype run = Returned exec_state | Raised pyerr exec_state

subsection \<open>\<open>PolicyExecutor.execute_plan\<close> (\<open>executor.py\<close>)\<close>

text \<open>
  The \<open>for\<close> loop over the tool calls of one response. It ends by running through
  (\<open>Next\<close>: the \<open>while\<close> loop goes on), by the \<open>return\<close> at
  \<open>processing_complete\<close> (\<open>Done\<close>), or by an exception (\<open>Fail\<close>): nothing in
  \<open>executor.py\<close> catches \<open>json.loads\<close>, the lookup \<open>self.function_mapping[name]\<close> or
  the call.
\<close>

datatype signal = Next | Done | Fail pyerr

fun exec_tool_calls ::
  "env \<Rightarrow> (string \<times> callable) list \<Rightarrow> tool_call list \<Rightarrow> exec_state \<Rightarrow> signal \<times> exec_state" where
  "exec_tool_calls env fm [] st = (Next, st)"
| "exec_tool_calls env fm (tc # tcs) st =
     (if tc_name tc = ''processing_complete'' then (Done, st)
      else
        (case json_loads env (tc_arguments tc) of
           None \<Rightarrow> (Fail JSONDecodeError, st)
         | Some function_args \<Rightarrow>
             (let st1 = append_message (FunctionCall (tc_name tc) function_args) st
              in case map_of fm (tc_name tc) of
                   None \<Rightarrow> (Fail (KeyError (tc_name tc)), st1)
                 | Some function_to_call \<Rightarrow>
                     (case function_to_call function_args (the_context st1) of
                        (Inl e, c') \<Rightarrow> (Fail e, st1\<lparr>the_context := c'\<rparr>)
                      | (Inr function_response, c') \<Rightarrow>
                          exec_tool_calls env fm tcs
                            (append_transcript
                               (ToolNamed (tc_id tc) (tc_name tc)
                                  (json_dumps env function_response))
                               (append_message (FunctionResponse (tc_name tc) function_response)
                                  (st1\<lparr>the_context := c'\<rparr>)))))))"

text \<open>
  The \<open>while True\<close> loop, with fuel: one unit per request to the model; \<open>None\<close> is
  a run that has not ended when the fuel is spent.
\<close>

fun exec_loop ::
  "env \<Rightarrow> (string \<times> callable) list \<Rightarrow> nat \<Rightarrow> exec_state \<Rightarrow> run option" where
  "exec_loop env fm 0 st = None"
| "exec_loop env fm (Suc n) st =
     (case client_create env (messages st) of
        Inl e \<Rightarrow> Some (Raised e st)
      | Inr resp \<Rightarrow>
          (let st1 = append_transcript (AssistantContent (content resp)) st
           in if tool_calls resp \<noteq> [] then
                (case exec_tool_calls env fm (tool_calls resp) st1 of
                   (Next, st2) \<Rightarrow> exec_loop env fm n st2
                 | (Done, st2) \<Rightarrow> Some (Returned st2)
                 | (Fail e, st2) \<Rightarrow> Some (Raised e st2))
              else Some (Returned st1)))"

text \<open>
  \<open>execute_plan\<close>: the transcript starts with the system prompt, the context is
  logged, the loop runs; the value returned is \<open>message_list\<close> of the final state.
\<close>

definition execute_plan ::
  "env \<Rightarrow> (string \<times> callable) list \<Rightarrow> nat \<Rightarrow> string \<Rightarrow> ctx \<Rightarrow> event list \<Rightarrow> run option" where
  "execute_plan env fm fuel plan_text c logged =
     exec_loop env fm fuel
       (append_message (ContextDump before_text c)
          \<lparr>the_context = c, messages = [System (EXECUTOR_PROMPT plan_text)],
           message_list = logged\<rparr>)"

subsection \<open>\<open>execute_plan\<close> of the prototype (\<open>prototype/order_fulfillment.py\<close>)\<close>

text \<open>
  The second \<open>for\<close> loop of the prototype: every call is logged; a call whose
  arguments do not parse is skipped (\<open>continue\<close>); an unknown name and an exception
  of the function become an \<open>error\<close> payload. Nothing here raises.
\<close>

definition error_payload :: "string \<Rightarrow> json" where
  "error_payload text = JObj [(''error'', JStr text)]"

definition not_implemented :: "string \<Rightarrow> json" where
  "not_implemented function_name =
     error_payload (''Function '' @ [CHR 0x27] @ function_name @ [CHR 0x27] @ '' not implemented.'')"

definition proto_call ::
  "(string \<times> callable) list \<Rightarrow> string \<Rightarrow> json \<Rightarrow> ctx \<Rightarrow> json \<times> ctx" where
  "proto_call fm function_name input_arguments c =
     (case map_of fm function_name of
        Some f \<Rightarrow>
          (case f input_arguments c of
             (Inl e, c') \<Rightarrow> (error_payload (str_exc e), c')
           | (Inr function_response, c') \<Rightarrow> (function_response, c'))
      | None \<Rightarrow> (not_implemented function_name, c))"

fun proto_tool_calls ::
  "env \<Rightarrow> (string \<times> callable) list \<Rightarrow> tool_call list \<Rightarrow> exec_state \<Rightarrow> exec_state" where
  "proto_tool_calls env fm [] st = st"
| "proto_tool_calls env fm (tc # tcs) st =
     (let st1 = append_message (ToolCallLog (tc_name tc) (tc_arguments tc)) st
      in case json_loads env (tc_arguments tc) of
           None \<Rightarrow> proto_tool_calls env fm tcs st1
         | Some input_arguments \<Rightarrow>
             (case proto_call fm (tc_name tc) input_arguments (the_context st1) of
                (function_response, c') \<Rightarrow>
                  (let serialized_output = json_dumps env function_response
                   in proto_tool_calls env fm tcs
                        (append_message (ToolResponseLog (tc_name tc) serialized_output)
                           (append_transcript (Tool (tc_id tc) serialized_output)
                              (st1\<lparr>the_context := c'\<rparr>))))))"

text \<open>
  The \<open>while True\<close> loop of the prototype, with fuel as above. A response without
  tool calls takes the \<open>continue\<close>; the first \<open>for\<close> loop returns the transcript as
  soon as a call names \<open>instructions_complete\<close>.
\<close>

definition names_sentinel :: "tool_call list \<Rightarrow> bool" where
  "names_sentinel tcs = list_ex (\<lambda>tc. tc_name tc = ''instructions_complete'') tcs"

fun proto_loop ::
  "env \<Rightarrow> (string \<times> callable) list \<Rightarrow> nat \<Rightarrow> exec_state \<Rightarrow> run option" where
  "proto_loop env fm 0 st = None"
| "proto_loop env fm (Suc n) st =
     (case client_create env (messages st) of
        Inl e \<Rightarrow> Some (Raised e st)
      | Inr resp \<Rightarrow>
          (let st1 = append_message (Assistant (content resp))
                       (append_transcript (AssistantDict (content resp) (tool_calls resp)) st)
           in if tool_calls resp = [] then proto_loop env fm n st1
              else if names_sentinel (tool_calls resp) then
                Some (Returned (append_message (ContextDump after_text (the_context st1)) st1))
              else proto_loop env fm n (proto_tool_calls env fm (tool_calls resp) st1)))"

text \<open>The prototype's \<open>execute_plan\<close>; the value returned is \<open>messages\<close> of the final state.\<close>

definition proto_execute_plan ::
  "env \<Rightarrow> (string \<times> callable) list \<Rightarrow> nat \<Rightarrow> string \<Rightarrow> ctx \<Rightarrow> event list \<Rightarrow> run option" where
  "proto_execute_plan env fm fuel plan c logged =
     proto_loop env fm fuel
       (append_message (ContextDump before_text c)
          \<lparr>the_context = c, messages = [System (EXECUTOR_PROMPT plan)], message_list = logged\<rparr>)"


section \<open>The function registry (\<open>registry.py\<close>)\<close>

text \<open>
  What \<open>inspect.signature\<close> gives for a parameter: its name, its annotation and its
  default (\<open>None\<close> is \<open>inspect.Parameter.empty\<close>). An annotation is one of the six
  types of \<open>type_map\<close> or anything else.
\<close>

datatype annotation =
    Ann_str | Ann_int | Ann_float | Ann_bool | Ann_dict | Ann_list | Ann_other string

record parameter =
  pname :: string
  pannotation :: "annotation option"
  pdefault :: "json option"

fun type_map :: "annotation \<Rightarrow> string option" where
  "type_map Ann_str = Some ''string''"
| "type_map Ann_int = Some ''integer''"
| "type_map Ann_float = Some ''number''"
| "type_map Ann_bool = Some ''boolean''"
| "type_map Ann_dict = Some ''object''"
| "type_map Ann_list = Some ''array''"
| "type_map (Ann_other _) = None"

definition get_param_type :: "parameter \<Rightarrow> string" where
  "get_param_type param =
     (case pannotation param of
        None \<Rightarrow> ''string''
      | Some param_type \<Rightarrow> (case type_map param_type of None \<Rightarrow> ''string'' | Some t \<Rightarrow> t))"

subsection \<open>The string operations of Python the registry uses\<close>

text \<open>\<open>sub in s\<close>.\<close>

fun str_contains :: "string \<Rightarrow> string \<Rightarrow> bool" where
  "str_contains [] sub = (sub = [])"
| "str_contains (c # cs) sub = (prefix sub (c # cs) \<or> str_contains cs sub)"

text \<open>
  \<open>s.split(sep)\<close> for a separator that is not empty (Python raises \<open>ValueError\<close> on
  an empty one; the registry never passes one): the text is cut at every occurrence
  of \<open>sep\<close>, found from the left without overlap.
\<close>

fun split_from :: "string \<Rightarrow> string \<Rightarrow> string \<Rightarrow> string list" where
  "split_from sep piece [] = [piece]"
| "split_from sep piece (c # cs) =
     (if sep \<noteq> [] \<and> prefix sep (c # cs)
      then piece # split_from sep [] (drop (length sep) (c # cs))
      else split_from sep (piece @ [c]) cs)"

definition str_split :: "string \<Rightarrow> string \<Rightarrow> string list" where
  "str_split s sep = split_from sep [] s"

text \<open>\<open>s.strip()\<close>, for the whitespace of ASCII.\<close>

definition isspace :: "char \<Rightarrow> bool" where
  "isspace c =
     (c \<in> set [CHR '' '', CHR 0x09, CHR 0x0A, CHR 0x0B, CHR 0x0C, CHR 0x0D,
                CHR 0x1C, CHR 0x1D, CHR 0x1E, CHR 0x1F])"

definition str_strip :: "string \<Rightarrow> string" where
  "str_strip s = rev (dropWhile isspace (rev (dropWhile isspace s)))"

text \<open>\<open>s.replace('_', ' ')\<close>.\<close>

definition humanize :: "string \<Rightarrow> string" where
  "humanize s = map (\<lambda>c. if c = CHR ''_'' then CHR '' '' else c) s"

definition doc_lines :: "string \<Rightarrow> string list" where
  "doc_lines doc = str_split doc [CHR 0x0A]"

subsection \<open>\<open>FunctionRegistry.extract_function_metadata\<close>\<close>

text \<open>
  The schema of one parameter (\<open>properties[name]\<close>) and the metadata of a function.
  The constant entries \<open>"type": "object"\<close> and \<open>"additionalProperties": False\<close> of
  \<open>parameters\<close> are left out.
\<close>

record property =
  ptype :: string
  description :: string
  enum :: "string list option"

record metadata =
  md_description :: string
  properties :: "(string \<times> property) list"
  required :: "string list"

text \<open>
  The description of a parameter: the text after \<open>:param <name>:\<close> on the first line
  of the documentation that holds this marker, stripped. \<open>line.split(marker)[1]\<close> is
  in range, as the line holds the marker (\<open>split_has_second\<close> below).
\<close>

definition param_desc :: "string \<Rightarrow> string \<Rightarrow> string" where
  "param_desc doc name =
     (case filter (\<lambda>line. str_contains line ('':param '' @ name @ '':'')) (doc_lines doc) of
        [] \<Rightarrow> ''''
      | line # _ \<Rightarrow> str_strip (str_split line ('':param '' @ name @ '':'') ! 1))"

text \<open>
  The enum of a parameter. The outer test of the source is \<open>":enum:" in doc\<close>: the
  six characters \<open>:enum:\<close> in a row, anywhere in the documentation.
\<close>

definition param_enum :: "string \<Rightarrow> string \<Rightarrow> string list option" where
  "param_enum doc name =
     (if str_contains doc '':enum:'' then
        (case filter (\<lambda>line. str_contains line ('':enum '' @ name @ '':'')) (doc_lines doc) of
           [] \<Rightarrow> None
         | enum_line # _ \<Rightarrow>
             Some (map str_strip
                     (str_split (str_strip (str_split enum_line ('':enum '' @ name @ '':'') ! 1))
                        '','')))
      else None)"

definition param_schema :: "string \<Rightarrow> parameter \<Rightarrow> property" where
  "param_schema doc param =
     \<lparr>ptype = get_param_type param,
      description =
        (if param_desc doc (pname param) = [] then ''The '' @ humanize (pname param) @ ''.''
         else param_desc doc (pname param)),
      enum = param_enum doc (pname param)\<rparr>"

text \<open>The loop over \<open>sig.parameters\<close>, with the two accumulators of the source.\<close>

fun params_loop ::
  "string \<Rightarrow> parameter list \<Rightarrow> (string \<times> property) list \<Rightarrow> string list \<Rightarrow>
   (string \<times> property) list \<times> string list" where
  "params_loop doc [] props req = (props, req)"
| "params_loop doc (param # ps) props req =
     (if pname param = ''self'' then params_loop doc ps props req
      else params_loop doc ps
             (AList.update (pname param) (param_schema doc param) props)
             (if pdefault param = None then req @ [pname param] else req))"

definition extract_function_metadata :: "parameter list \<Rightarrow> string option \<Rightarrow> metadata" where
  "extract_function_metadata sig getdoc =
     (let doc = (case getdoc of None \<Rightarrow> '''' | Some d \<Rightarrow> d);
          (props, req) = params_loop doc sig [] []
      in \<lparr>md_description = (case doc_lines doc of [] \<Rightarrow> '''' | first # _ \<Rightarrow> first),
          properties = props,
          required = req\<rparr>)"

text \<open>The six type names of \<open>type_map\<close>.\<close>

definition json_types :: "string list" where
  "json_types = [''string'', ''integer'', ''number'', ''boolean'', ''object'', ''array'']"

text \<open>The signature and the documentation of \<open>check_inventory\<close> (\<open>functions.py\<close>).\<close>

definition check_inventory_sig :: "parameter list" where
  "check_inventory_sig = [\<lparr>pname = ''sku'', pannotation = Some Ann_str, pdefault = None\<rparr>]"

definition check_inventory_doc :: string where
  "check_inventory_doc =
     ''Check current inventory level for a product.'' @ [CHR 0x0A]
     @ '':param sku: The stock keeping unit identifier'' @ [CHR 0x0A]
     @ '':enum sku: SKU001,SKU002,SKU003''"


section \<open>Plans (\<open>plans.py\<close>)\<close>

record plan =
  scenario :: string
  plan_text :: string
  model_used :: string
  created_at :: string

text \<open>
  What \<open>Plan.save\<close> and \<open>Plan.load\<close> get from outside the repository, over a file
  system of any type \<open>'fs\<close>: \<open>pathlib\<close>'s \<open>/\<close> and \<open>parent\<close>,
  \<open>mkdir(parents=True, exist_ok=True)\<close>, writing a text to a path opened with
  \<open>'w'\<close>, reading a path, \<open>json.dump\<close> with \<open>indent=2\<close>, \<open>json.load\<close>, the
  timestamp of \<open>strftime\<close>, and the default of \<open>created_at\<close> (computed once, when the
  class is defined).
\<close>

record 'fs io =
  path_join :: "string \<Rightarrow> string \<Rightarrow> string"
  path_parent :: "string \<Rightarrow> string"
  mkdir :: "string \<Rightarrow> 'fs \<Rightarrow> pyerr + 'fs"
  write_file :: "string \<Rightarrow> string \<Rightarrow> 'fs \<Rightarrow> pyerr + 'fs"
  read_file :: "string \<Rightarrow> 'fs \<Rightarrow> pyerr + string"
  json_dump :: "json \<Rightarrow> string"
  json_load :: "string \<Rightarrow> json option"
  timestamp :: string
  default_created_at :: string

text \<open>\<open>self.__dict__\<close> of a plan: its four fields, in the order of the dataclass.\<close>

definition plan_dict :: "plan \<Rightarrow> json" where
  "plan_dict p =
     JObj [(''scenario'', JStr (scenario p)), (''plan_text'', JStr (plan_text p)),
           (''model_used'', JStr (model_used p)), (''created_at'', JStr (created_at p))]"

definition plans_dir :: string where
  "plans_dir = ''run_results/plans''"

definition save :: "'fs io \<Rightarrow> plan \<Rightarrow> string option \<Rightarrow> 'fs \<Rightarrow> pyerr + string \<times> 'fs" where
  "save io p filename_opt fs =
     (let filename = (case filename_opt of
                        None \<Rightarrow> ''plan_'' @ timestamp io @ ''.json''
                      | Some f \<Rightarrow> f);
          path = path_join io plans_dir filename
      in case mkdir io (path_parent io path) fs of
           Inl e \<Rightarrow> Inl e
         | Inr fs1 \<Rightarrow>
             (case write_file io path (json_dump io (plan_dict p)) fs1 of
                Inl e \<Rightarrow> Inl e
              | Inr fs2 \<Rightarrow> Inr (path, fs2)))"

text \<open>
  \<open>cls(**data)\<close>: the keywords are bound to the four fields, \<open>created_at\<close> alone
  having a default. As for the business functions, a value that is not a string is
  outside this model and reported as a \<open>TypeError\<close>.
\<close>

definition Plan_init :: "string \<Rightarrow> json \<Rightarrow> pyerr + plan" where
  "Plan_init dflt data =
     (case data of
        JObj kv \<Rightarrow>
          (case bind_kwargs ''Plan'' [''scenario'', ''plan_text'', ''model_used'']
                  (JObj (filter (\<lambda>e. fst e \<noteq> ''created_at'') kv)) of
             Inl e \<Rightarrow> Inl e
           | Inr vs \<Rightarrow>
               (case (map as_str vs, map_of kv ''created_at'') of
                  ([Some s, Some t, Some m], None) \<Rightarrow>
                    Inr \<lparr>scenario = s, plan_text = t, model_used = m, created_at = dflt\<rparr>
                | ([Some s, Some t, Some m], Some (JStr c)) \<Rightarrow>
                    Inr \<lparr>scenario = s, plan_text = t, model_used = m, created_at = c\<rparr>
                | _ \<Rightarrow> Inl (ill_typed ''Plan'')))
      | _ \<Rightarrow> Inl (TypeError ''Plan() argument after ** must be a mapping''))"

definition load :: "'fs io \<Rightarrow> string \<Rightarrow> 'fs \<Rightarrow> pyerr + plan" where
  "load io filename fs =
     (let path = path_join io plans_dir filename
      in case read_file io path fs of
           Inl e \<Rightarrow> Inl e
         | Inr text \<Rightarrow>
             (case json_load io text of
                None \<Rightarrow> Inl JSONDecodeError
              | Some data \<Rightarrow> Plan_init (default_created_at io) data))"

section \<open>Properties and the inputs they are run on\<close>

text \<open>No inventory level and no processing capacity is negative.\<close>

definition inventory_nonneg :: "ctx \<Rightarrow> bool" where
  "inventory_nonneg c =
     (list_all (\<lambda>kv. 0 \<le> snd kv) (inventory c) \<and> 0 \<le> processing (warehouse_capacity c))"

text \<open>
  A sequence of calls, each a registered name with its arguments, run one after the
  other on the business state (a name that is not registered calls nothing).
\<close>

fun call_sequence :: "(string \<times> callable) list \<Rightarrow> (string \<times> json) list \<Rightarrow> ctx \<Rightarrow> ctx" where
  "call_sequence fm [] c = c"
| "call_sequence fm (call # calls) c =
     (case map_of fm (fst call) of
        None \<Rightarrow> call_sequence fm calls c
      | Some f \<Rightarrow> call_sequence fm calls (snd (f (snd call) c)))"

text \<open>
  A scripted model: on the turn whose transcript holds \<open>k\<close> assistant messages it
  answers with the \<open>k\<close>-th response of the script, and the service fails once the
  script is used up.
\<close>

fun is_assistant :: "message \<Rightarrow> bool" where
  "is_assistant (AssistantContent _) = True"
| "is_assistant (AssistantDict _ _) = True"
| "is_assistant _ = False"

definition scripted :: "response list \<Rightarrow> message list \<Rightarrow> pyerr + response" where
  "scripted script msgs =
     (let turn = length (filter is_assistant msgs)
      in if turn < length script then Inr (script ! turn)
         else Inl (APIError ''script used up''))"

text \<open>
  Stand-ins for the JSON library on the inputs below: a parser that knows the
  argument texts of a table (any other text does not parse), and a serialiser that
  writes an object as its keys.
\<close>

definition table_loads :: "(string \<times> json) list \<Rightarrow> string \<Rightarrow> json option" where
  "table_loads table text = map_of table text"

fun keys_dumps :: "json \<Rightarrow> string" where
  "keys_dumps (JObj kv) = ''{'' @ concat (map (\<lambda>e. fst e @ '';'') kv) @ ''}''"
| "keys_dumps _ = ''_''"

definition allocate_args :: "string \<Rightarrow> string \<Rightarrow> int \<Rightarrow> json" where
  "allocate_args order_id sku quantity =
     JObj [(''order_id'', JStr order_id), (''sku'', JStr sku), (''quantity'', JInt quantity)]"

definition a80_text :: string where
  "a80_text = ''{\"order_id\": \"ORD001\", \"sku\": \"SKU001\", \"quantity\": 80}''"

definition a30_text :: string where
  "a30_text = ''{\"order_id\": \"ORD002\", \"sku\": \"SKU001\", \"quantity\": 30}''"

definition malformed_text :: string where
  "malformed_text = ''{\"sku\": ''"

definition args_table :: "(string \<times> json) list" where
  "args_table =
     [(''{}'', JObj []),
      (a80_text, allocate_args ''ORD001'' ''SKU001'' 80),
      (a30_text, allocate_args ''ORD002'' ''SKU001'' 30)]"

definition test_env :: "response list \<Rightarrow> env" where
  "test_env script =
     \<lparr>client_create = scripted script, json_loads = table_loads args_table,
      json_dumps = keys_dumps, now = ''2024-01-01T00:00:00''\<rparr>"

definition mk_call :: "string \<Rightarrow> string \<Rightarrow> string \<Rightarrow> tool_call" where
  "mk_call i n a = \<lparr>tc_id = i, tc_name = n, tc_arguments = a\<rparr>"

definition turn :: "tool_call list \<Rightarrow> response" where
  "turn tcs = \<lparr>content = None, tool_calls = tcs\<rparr>"

definition test_mapping :: "(string \<times> callable) list" where
  "test_mapping = get_function_mapping ''2024-01-01T00:00:00''"

definition start_state :: exec_state where
  "start_state =
     \<lparr>the_context = create_context, messages = [System ''plan''], message_list = []\<rparr>"

text \<open>
  A file system for the plans: the files by path. Joining appends the name to the
  directory, \<open>mkdir\<close> changes no file, writing stores the text, reading a missing
  path fails. The stand-in codec writes a JSON object of strings as its values, one
  per line, and reads four lines back.
\<close>

definition lines_dump :: "json \<Rightarrow> string" where
  "lines_dump j =
     (case j of
        JObj kv \<Rightarrow> concat (map (\<lambda>e. (case snd e of JStr s \<Rightarrow> s | _ \<Rightarrow> '''') @ [CHR 0x0A]) kv)
      | _ \<Rightarrow> '''')"

definition lines_load :: "string \<Rightarrow> json option" where
  "lines_load text =
     (case str_split text [CHR 0x0A] of
        [a, b, c, d, e] \<Rightarrow>
          Some (JObj [(''scenario'', JStr a), (''plan_text'', JStr b),
                      (''model_used'', JStr c), (''created_at'', JStr d)])
      | _ \<Rightarrow> None)"

definition test_io :: "(string \<Rightarrow> string option) io" where
  "test_io =
     \<lparr>path_join = (\<lambda>d f. d @ ''/'' @ f),
      path_parent = (\<lambda>p. plans_dir),
      mkdir = (\<lambda>d fs. Inr fs),
      write_file = (\<lambda>path text fs. Inr (fs(path \<mapsto> text))),
      read_file = (\<lambda>path fs. case fs path of None \<Rightarrow> Inl (OSError ''No such file'')
                                | Some text \<Rightarrow> Inr text),
      json_dump = lines_dump,
      json_load = lines_load,
      timestamp = ''20240101_000000'',
      default_created_at = ''2024-01-01T00:00:00''\<rparr>"

definition test_plan :: plan where
  "test_plan =
     \<lparr>scenario = ''ship'', plan_text = ''1. check'', model_used = ''o1-mini'',
      created_at = ''2024-01-02T00:00:00''\<rparr>"


text \<open>
  A signature with a second parameter that has a default and no annotation, to run
  the registry on both kinds of parameter.
\<close>

definition example_sig :: "parameter list" where
  "example_sig =
     [\<lparr>pname = ''sku'', pannotation = Some Ann_str, pdefault = None\<rparr>,
      \<lparr>pname = ''limit'', pannotation = None, pdefault = Some (JInt 10)\<rparr>]"

text \<open>The tool calls and responses the loops are run on.\<close>

definition sentinel_call :: tool_call where
  "sentinel_call = mk_call ''call_9'' ''instructions_complete'' ''{}''"

definition unknown_call :: tool_call where
  "unknown_call = mk_call ''call_1'' ''cancel_order'' ''{}''"

definition malformed_call :: tool_call where
  "malformed_call = mk_call ''call_2'' ''check_inventory'' malformed_text"

definition a80_call :: tool_call where
  "a80_call = mk_call ''call_3'' ''allocate_inventory'' a80_text"

definition a30_call :: tool_call where
  "a30_call = mk_call ''call_4'' ''allocate_inventory'' a30_text"

definition done_response :: response where
  "done_response = \<lparr>content = Some ''done'', tool_calls = []\<rparr>"

definition thinking_response :: response where
  "thinking_response = \<lparr>content = Some ''thinking'', tool_calls = []\<rparr>"

section \<open>The business functions keep stock and capacity non-negative\<close>

lemma update_nonneg:
  "list_all (\<lambda>kv. (0::int) \<le> snd kv) al \<Longrightarrow> 0 \<le> v \<Longrightarrow>
   list_all (\<lambda>kv. 0 \<le> snd kv) (AList.update k v al)"
  by (induction al) auto

lemma allocate_inventory_nonneg:
  "inventory_nonneg c \<Longrightarrow> inventory_nonneg (snd (allocate_inventory c order_id sku quantity))"
  by (auto simp: inventory_nonneg_def allocate_inventory_def dict_get_def Let_def
      intro!: update_nonneg split: option.splits)

lemma schedule_processing_nonneg:
  "inventory_nonneg c \<Longrightarrow> inventory_nonneg (snd (schedule_processing t c order_id priority))"
  by (auto simp: inventory_nonneg_def schedule_processing_def Let_def)

lemma create_purchase_order_nonneg:
  "inventory_nonneg c \<Longrightarrow> inventory_nonneg (snd (create_purchase_order c a b q))"
  by (auto simp: inventory_nonneg_def create_purchase_order_def Let_def split: option.splits)

lemma notify_customer_nonneg:
  "inventory_nonneg c \<Longrightarrow> inventory_nonneg (snd (notify_customer t c a b m))"
  by (auto simp: inventory_nonneg_def notify_customer_def Let_def)

lemma readers_nonneg:
  "snd (check_inventory c s) = c" "snd (get_pending_orders c) = c"
  "snd (list_suppliers c) = c" "snd (get_supplier_catalog c s) = c"
  "snd (check_processing_capacity c s) = c" "snd (instructions_complete c) = c"
  by (auto simp: check_inventory_def get_pending_orders_def list_suppliers_def
      get_supplier_catalog_def check_processing_capacity_def instructions_complete_def Let_def
      split: option.splits)

lemma call0_keeps:
  assumes "\<And>c. P c \<Longrightarrow> P (snd (f c))" "P c"
  shows "P (snd (call0 n f args c))"
  using assms by (auto simp: call0_def split: sum.splits)

lemma call_s_keeps:
  assumes "\<And>c a. P c \<Longrightarrow> P (snd (f c a))" "P c"
  shows "P (snd (call_s n p1 f args c))"
  using assms by (auto simp: call_s_def split: sum.splits list.splits option.splits)

lemma call_ss_keeps:
  assumes "\<And>c a b. P c \<Longrightarrow> P (snd (f c a b))" "P c"
  shows "P (snd (call_ss n p1 p2 f args c))"
  using assms by (auto simp: call_ss_def split: sum.splits list.splits option.splits)

lemma call_sss_keeps:
  assumes "\<And>c a b d. P c \<Longrightarrow> P (snd (f c a b d))" "P c"
  shows "P (snd (call_sss n p1 p2 p3 f args c))"
  using assms by (auto simp: call_sss_def split: sum.splits list.splits option.splits)

lemma call_ssi_keeps:
  assumes "\<And>c a b q. P c \<Longrightarrow> P (snd (f c a b q))" "P c"
  shows "P (snd (call_ssi n p1 p2 p3 f args c))"
  using assms by (auto simp: call_ssi_def split: sum.splits list.splits option.splits prod.splits)


lemmas keeps_nonneg =
  call0_keeps[where P = inventory_nonneg] call_s_keeps[where P = inventory_nonneg]
  call_ss_keeps[where P = inventory_nonneg] call_sss_keeps[where P = inventory_nonneg]
  call_ssi_keeps[where P = inventory_nonneg]

lemma mapping_entries_nonneg:
  assumes "f \<in> snd ` set (get_function_mapping t)" "inventory_nonneg c"
  shows "inventory_nonneg (snd (f args c))"
proof -
  from assms(1) consider
      "f = call_s ''check_inventory'' ''sku'' check_inventory"
    | "f = call0 ''get_pending_orders'' get_pending_orders"
    | "f = call_ssi ''allocate_inventory'' ''order_id'' ''sku'' ''quantity'' allocate_inventory"
    | "f = call0 ''list_suppliers'' list_suppliers"
    | "f = call_s ''get_supplier_catalog'' ''supplier_id'' get_supplier_catalog"
    | "f = call_ssi ''create_purchase_order'' ''supplier_id'' ''sku'' ''quantity''
             create_purchase_order"
    | "f = call_s ''check_processing_capacity'' ''time_frame'' check_processing_capacity"
    | "f = call_ss ''schedule_processing'' ''order_id'' ''priority'' (schedule_processing t)"
    | "f = call_sss ''notify_customer'' ''customer_id'' ''order_id'' ''message''
             (notify_customer t)"
    | "f = call0 ''instructions_complete'' instructions_complete"
    unfolding get_function_mapping_def by auto
  then show ?thesis
  proof cases
    case 1 then show ?thesis using assms(2) by (simp add: keeps_nonneg readers_nonneg)
  next
    case 2 then show ?thesis using assms(2) by (simp add: keeps_nonneg readers_nonneg)
  next
    case 3 then show ?thesis using assms(2) by (simp add: keeps_nonneg allocate_inventory_nonneg)
  next
    case 4 then show ?thesis using assms(2) by (simp add: keeps_nonneg readers_nonneg)
  next
    case 5 then show ?thesis using assms(2) by (simp add: keeps_nonneg readers_nonneg)
  next
    case 6 then show ?thesis using assms(2) by (simp add: keeps_nonneg create_purchase_order_nonneg)
  next
    case 7 then show ?thesis using assms(2) by (simp add: keeps_nonneg readers_nonneg)
  next
    case 8 then show ?thesis using assms(2) by (simp add: keeps_nonneg schedule_processing_nonneg)
  next
    case 9 then show ?thesis using assms(2) by (simp add: keeps_nonneg notify_customer_nonneg)
  next
    case 10 then show ?thesis using assms(2) by (simp add: keeps_nonneg readers_nonneg)
  qed
qed

lemma mapping_nonneg:
  assumes "map_of (get_function_mapping t) name = Some f" "inventory_nonneg c"
  shows "inventory_nonneg (snd (f args c))"
proof -
  have "(name, f) \<in> set (get_function_mapping t)" using assms(1) by (rule map_of_SomeD)
  then have "f \<in> snd ` set (get_function_mapping t)" by force
  then show ?thesis using assms(2) by (rule mapping_entries_nonneg)
qed

lemma call_sequence_nonneg:
  "inventory_nonneg c \<Longrightarrow> inventory_nonneg (call_sequence (get_function_mapping t) calls c)"
proof (induction calls arbitrary: c)
  case Nil
  then show ?case by simp
next
  case (Cons call calls)
  show ?case
  proof (cases "map_of (get_function_mapping t) (fst call)")
    case None
    then show ?thesis using Cons by simp
  next
    case (Some f)
    then show ?thesis using Cons mapping_nonneg[OF Some] by simp
  qed
qed

text \<open>
  C7. With 100 units of SKU001 in stock, allocating 30 returns \<open>allocated: 30\<close> and
  leaves 70; allocating 200 from that state returns \<open>allocated: 0\<close> with the error
  \<open>Insufficient inventory\<close> and leaves the state as it was.
\<close>

theorem allocate_30_then_200:
  assumes "map_of (inventory c) ''SKU001'' = Some 100"
  shows "(let c1 = snd (allocate_inventory c o1 ''SKU001'' 30)
          in fst (allocate_inventory c o1 ''SKU001'' 30) =
               Inr (JObj [(''order_id'', JStr o1), (''allocated'', JInt 30)])
             \<and> map_of (inventory c1) ''SKU001'' = Some 70
             \<and> allocate_inventory c1 o2 ''SKU001'' 200 =
                 (Inr (JObj [(''order_id'', JStr o2), (''allocated'', JInt 0),
                             (''error'', JStr ''Insufficient inventory'')]), c1))"
  using assms
  by (simp add: allocate_inventory_def dict_get_def Let_def update_conv')

theorem allocate_30_then_200_witness:
  "map_of (inventory create_context) ''SKU001'' = Some 100
   \<and> fst (allocate_inventory create_context ''ORD001'' ''SKU001'' 30) =
       Inr (JObj [(''order_id'', JStr ''ORD001''), (''allocated'', JInt 30)])
   \<and> inventory (snd (allocate_inventory create_context ''ORD001'' ''SKU001'' 30)) =
       [(''SKU001'', 70), (''SKU002'', 75), (''SKU003'', 50)]
   \<and> allocate_inventory (snd (allocate_inventory create_context ''ORD001'' ''SKU001'' 30))
         ''ORD002'' ''SKU001'' 200 =
       (Inr (JObj [(''order_id'', JStr ''ORD002''), (''allocated'', JInt 0),
                   (''error'', JStr ''Insufficient inventory'')]),
        snd (allocate_inventory create_context ''ORD001'' ''SKU001'' 30))"
proof -
  have h: "map_of (inventory create_context) ''SKU001'' = Some 100"
    by (simp add: create_context_def)
  have i: "inventory (snd (allocate_inventory create_context ''ORD001'' ''SKU001'' 30)) =
             [(''SKU001'', 70), (''SKU002'', 75), (''SKU003'', 50)]"
    by (simp add: allocate_inventory_def dict_get_def create_context_def)
  show ?thesis
    using h i allocate_30_then_200 [OF h, of "''ORD001''" "''ORD002''"]
    by (simp add: Let_def)
qed

text \<open>
  C10. From a state in which no inventory level and no processing capacity is
  negative, \<open>allocate_inventory\<close> and \<open>schedule_processing\<close> with any arguments, and
  any sequence of calls of the registered functions with any JSON arguments, lead to
  a state with the same property.
\<close>

theorem stock_and_capacity_stay_nonneg:
  assumes "inventory_nonneg c"
  shows "inventory_nonneg (snd (allocate_inventory c order_id sku quantity))
         \<and> inventory_nonneg (snd (schedule_processing t c order_id' priority))
         \<and> inventory_nonneg (call_sequence (get_function_mapping t) calls c)"
  using assms
  by (simp add: allocate_inventory_nonneg schedule_processing_nonneg call_sequence_nonneg)

theorem stock_and_capacity_stay_nonneg_witness:
  "inventory_nonneg create_context
   \<and> inventory_nonneg (snd (allocate_inventory create_context ''ORD001'' ''SKU001'' (- 5)))
   \<and> inventory_nonneg (snd (schedule_processing ''now'' create_context ''ORD001'' ''Rush''))
   \<and> inventory_nonneg
        (call_sequence (get_function_mapping ''now'')
           [(''allocate_inventory'', allocate_args ''ORD001'' ''SKU001'' 80),
            (''schedule_processing'',
               JObj [(''order_id'', JStr ''ORD001''), (''priority'', JStr ''Rush'')]),
            (''allocate_inventory'', allocate_args ''ORD002'' ''SKU001'' 30)]
           create_context)"
proof -
  have h: "inventory_nonneg create_context"
    by (simp add: inventory_nonneg_def create_context_def)
  show ?thesis
    using h
      stock_and_capacity_stay_nonneg [OF h, where order_id = "''ORD001''" and sku = "''SKU001''"
        and quantity = "- 5" and t = "''now''" and order_id' = "''ORD001''"
        and priority = "''Rush''"
        and calls = "[(''allocate_inventory'', allocate_args ''ORD001'' ''SKU001'' 80),
            (''schedule_processing'',
               JObj [(''order_id'', JStr ''ORD001''), (''priority'', JStr ''Rush'')]),
            (''allocate_inventory'', allocate_args ''ORD002'' ''SKU001'' 30)]"]
    by simp
qed


section \<open>The registry\<close>

lemma params_loop_required:
  "snd (params_loop doc ps props req) =
     req @ map pname (filter (\<lambda>p. pname p \<noteq> ''self'' \<and> pdefault p = None) ps)"
  by (induction ps arbitrary: props req) auto

lemma params_loop_other:
  "n \<notin> pname ` set ps \<Longrightarrow> map_of (fst (params_loop doc ps props req)) n = map_of props n"
  by (induction ps arbitrary: props req) (auto simp: update_conv')

lemma params_loop_property:
  "distinct (map pname ps) \<Longrightarrow> p \<in> set ps \<Longrightarrow> pname p \<noteq> ''self'' \<Longrightarrow>
   map_of (fst (params_loop doc ps props req)) (pname p) = Some (param_schema doc p)"
proof (induction ps arbitrary: props req)
  case Nil
  then show ?case by simp
next
  case (Cons q ps)
  show ?case
  proof (cases "p = q")
    case True
    then have "pname p \<notin> pname ` set ps" using Cons.prems(1) by auto
    then show ?thesis using True Cons.prems(3)
      by (simp add: params_loop_other update_conv')
  next
    case False
    then have "p \<in> set ps" using Cons.prems(2) by simp
    then show ?thesis using Cons by simp
  qed
qed


lemma type_map_recognized: "type_map a = Some t \<Longrightarrow> t \<in> set json_types"
  by (cases a) (simp_all add: json_types_def)

lemma get_param_type_recognized: "get_param_type p \<in> set json_types"
proof (cases "pannotation p")
  case None
  then show ?thesis by (simp add: get_param_type_def json_types_def)
next
  case (Some a)
  show ?thesis
  proof (cases "type_map a")
    case None
    then show ?thesis using Some by (simp add: get_param_type_def json_types_def)
  next
    case (Some t)
    then show ?thesis using \<open>pannotation p = Some a\<close> type_map_recognized[OF Some]
      by (simp add: get_param_type_def)
  qed
qed

lemma get_param_type_unannotated: "pannotation p = None \<Longrightarrow> get_param_type p = ''string''"
  by (simp add: get_param_type_def)


lemma metadata_required:
  "required (extract_function_metadata sig getdoc) =
     map pname (filter (\<lambda>p. pname p \<noteq> ''self'' \<and> pdefault p = None) sig)"
  using params_loop_required[of "case getdoc of None \<Rightarrow> '''' | Some d \<Rightarrow> d" sig "[]" "[]"]
  by (simp add: extract_function_metadata_def Let_def case_prod_beta)

lemma metadata_properties:
  "properties (extract_function_metadata sig getdoc) =
     fst (params_loop (case getdoc of None \<Rightarrow> '''' | Some d \<Rightarrow> d) sig [] [])"
  by (simp add: extract_function_metadata_def Let_def case_prod_beta)

lemma pname_unique:
  "distinct (map pname sig) \<Longrightarrow> p \<in> set sig \<Longrightarrow> q \<in> set sig \<Longrightarrow> pname q = pname p \<Longrightarrow> q = p"
  by (auto simp: distinct_map dest: inj_onD)

lemma split_from_nonempty: "split_from sep piece s \<noteq> []"
  by (induction sep piece s rule: split_from.induct) auto

lemma split_from_has_second:
  "sep \<noteq> [] \<Longrightarrow> str_contains s sep \<Longrightarrow> 2 \<le> length (split_from sep piece s)"
proof (induction sep piece s rule: split_from.induct)
  case (1 sep piece)
  then show ?case by simp
next
  case (2 sep piece c cs)
  show ?case
  proof (cases "prefix sep (c # cs)")
    case True
    have "1 \<le> length (split_from sep [] (drop (length sep) (c # cs)))"
      using split_from_nonempty[of sep "[]" "drop (length sep) (c # cs)"]
      by (cases "split_from sep [] (drop (length sep) (c # cs))") auto
    then show ?thesis using True "2.prems"(1) by simp
  next
    case False
    then have "str_contains cs sep" using "2.prems"(2) by simp
    then show ?thesis using False "2.IH"(2) "2.prems"(1) by simp
  qed
qed

lemma split_has_second:
  "sep \<noteq> [] \<Longrightarrow> str_contains s sep \<Longrightarrow> 1 < length (str_split s sep)"
  using split_from_has_second[of sep s "[]"] by (simp add: str_split_def)

text \<open>
  C5. For a signature with distinct parameter names (Python allows no other) and a
  parameter other than the receiver \<open>self\<close>, which the registry skips: the parameter
  is listed in \<open>required\<close> if and only if it has no default; its schema has one of
  the six JSON type names; and that name is \<open>string\<close> when it has no annotation.
\<close>

theorem required_iff_no_default:
  assumes "distinct (map pname sig)" "p \<in> set sig" "pname p \<noteq> ''self''"
  shows "(pname p \<in> set (required (extract_function_metadata sig getdoc)) \<longleftrightarrow> pdefault p = None)
       \<and> (\<exists>s. map_of (properties (extract_function_metadata sig getdoc)) (pname p) = Some s
              \<and> ptype s \<in> set json_types
              \<and> (pannotation p = None \<longrightarrow> ptype s = ''string''))"
proof -
  let ?doc = "case getdoc of None \<Rightarrow> '''' | Some d \<Rightarrow> d"
  have 1: "pname p \<in> set (required (extract_function_metadata sig getdoc)) \<longleftrightarrow> pdefault p = None"
  proof
    assume "pname p \<in> set (required (extract_function_metadata sig getdoc))"
    then obtain q where q: "q \<in> set sig" "pname q = pname p" "pdefault q = None"
      unfolding metadata_required by auto
    then have "q = p" using pname_unique[OF assms(1,2)] by blast
    then show "pdefault p = None" using q by simp
  next
    assume "pdefault p = None"
    then show "pname p \<in> set (required (extract_function_metadata sig getdoc))"
      unfolding metadata_required using assms(2,3) by force
  qed
  have 2: "map_of (properties (extract_function_metadata sig getdoc)) (pname p)
             = Some (param_schema ?doc p)"
    unfolding metadata_properties using assms by (rule params_loop_property)
  have 3: "ptype (param_schema ?doc p) = get_param_type p"
    by (simp add: param_schema_def)
  show ?thesis
    using 1 2 3 get_param_type_recognized[of p] get_param_type_unannotated[of p] by simp
qed

theorem required_iff_no_default_witness:
  "distinct (map pname example_sig)
   \<and> \<lparr>pname = ''limit'', pannotation = None, pdefault = Some (JInt 10)\<rparr> \<in> set example_sig
   \<and> ''limit'' \<noteq> ''self''
   \<and> ''limit'' \<notin> set (required (extract_function_metadata example_sig None))
   \<and> (\<exists>s. map_of (properties (extract_function_metadata example_sig None)) ''limit'' = Some s
          \<and> ptype s = ''string'')
   \<and> required (extract_function_metadata example_sig None) = [''sku'']"
proof -
  have d: "distinct (map pname example_sig)" by (simp add: example_sig_def)
  have m: "\<lparr>pname = ''limit'', pannotation = None, pdefault = Some (JInt 10)\<rparr> \<in> set example_sig"
    by (simp add: example_sig_def)
  have n: "pname \<lparr>pname = ''limit'', pannotation = None, pdefault = Some (JInt 10)\<rparr> \<noteq> ''self''"
    by simp
  have r: "required (extract_function_metadata example_sig None) = [''sku'']"
    by (simp add: metadata_required example_sig_def)
  show ?thesis
    using d m r required_iff_no_default [OF d m n, of None] by auto
qed

text \<open>
  C6. \<open>check_inventory\<close> documents \<open>:enum sku: SKU001,SKU002,SKU003\<close>, yet the
  schema the registry generates for \<open>sku\<close> has no \<open>enum\<close>: the outer test looks for
  the text \<open>:enum:\<close>, which a line \<open>:enum sku: ...\<close> does not contain.
\<close>

lemma check_inventory_gate: "str_contains check_inventory_doc '':enum:'' = False"
  by (simp add: check_inventory_doc_def)

lemma check_inventory_lines:
  "doc_lines check_inventory_doc =
     [''Check current inventory level for a product.'',
      '':param sku: The stock keeping unit identifier'',
      '':enum sku: SKU001,SKU002,SKU003'']"
  by (simp add: doc_lines_def str_split_def check_inventory_doc_def)

lemma check_inventory_desc:
  "param_desc check_inventory_doc ''sku'' = ''The stock keeping unit identifier''"
  by (simp add: param_desc_def check_inventory_lines str_split_def str_strip_def isspace_def)

theorem check_inventory_schema_has_no_enum:
  "extract_function_metadata check_inventory_sig (Some check_inventory_doc) =
     \<lparr>md_description = ''Check current inventory level for a product.'',
      properties = [(''sku'', \<lparr>ptype = ''string'',
             description = ''The stock keeping unit identifier'', enum = None\<rparr>)],
      required = [''sku'']\<rparr>"
  by (simp add: extract_function_metadata_def check_inventory_sig_def param_schema_def
      get_param_type_def param_enum_def check_inventory_gate check_inventory_desc
      check_inventory_lines)

text \<open>
  Behind the outer test the parse is the one the documentation convention asks for:
  with the text \<open>:enum:\<close> somewhere in the documentation, the values of the line
  \<open>:enum sku: ...\<close> are attached, split at the commas and stripped.
\<close>

lemma enum_attached_behind_gate:
  "param_enum ('':enum:'' @ [CHR 0x0A] @ '':enum sku: SKU001, SKU002 ,SKU003'') ''sku'' =
     Some [''SKU001'', ''SKU002'', ''SKU003'']"
  by (simp add: param_enum_def doc_lines_def str_split_def str_strip_def isspace_def)


section \<open>The two execution loops\<close>

lemmas run_defs =
  execute_plan_def proto_execute_plan_def test_env_def scripted_def table_loads_def
  args_table_def test_mapping_def get_function_mapping_def call0_def call_s_def call_ss_def
  call_ssi_def call_sss_def mk_call_def turn_def sentinel_call_def done_response_def
  append_message_def append_transcript_def Let_def allocate_args_def proto_call_def
  names_sentinel_def not_implemented_def error_payload_def start_state_def
  unknown_call_def malformed_call_def a80_call_def a30_call_def thinking_response_def
  a80_text_def a30_text_def malformed_text_def

lemma proto_tool_calls_append:
  "proto_tool_calls env fm (xs @ ys) st =
     proto_tool_calls env fm ys (proto_tool_calls env fm xs st)"
  by (induction xs arbitrary: st) (simp_all add: Let_def split: option.splits prod.splits)

lemma exec_tool_calls_append:
  "exec_tool_calls env fm (xs @ ys) st =
     (case exec_tool_calls env fm xs st of
        (Next, st') \<Rightarrow> exec_tool_calls env fm ys st'
      | (Done, st') \<Rightarrow> (Done, st')
      | (Fail e, st') \<Rightarrow> (Fail e, st'))"
  by (induction xs arbitrary: st)
     (simp_all add: Let_def split: option.splits prod.splits sum.splits)

lemma proto_step_parsed:
  "json_loads env (tc_arguments tc) = Some a \<Longrightarrow>
   the_context (proto_tool_calls env fm [tc] st) = snd (proto_call fm (tc_name tc) a (the_context st))"
  by (simp add: Let_def append_message_def append_transcript_def split: prod.splits)

lemma exec_step_called:
  "tc_name tc \<noteq> ''processing_complete'' \<Longrightarrow> json_loads env (tc_arguments tc) = Some a \<Longrightarrow>
   map_of fm (tc_name tc) = Some f \<Longrightarrow>
   the_context (snd (exec_tool_calls env fm [tc] st)) = snd (f a (the_context st))"
  by (simp add: Let_def append_message_def append_transcript_def split: prod.splits sum.splits)

lemma proto_silent_forever:
  assumes "\<And>m. \<exists>r. client_create env m = Inr r \<and> tool_calls r = []"
  shows "proto_loop env fm n st = None"
proof (induction n arbitrary: st)
  case 0
  then show ?case by simp
next
  case (Suc n)
  obtain r where "client_create env (messages st) = Inr r" "tool_calls r = []"
    using assms by blast
  then show ?case using Suc by (simp add: Let_def)
qed

lemma proto_sentinel_returns:
  assumes "client_create env (messages st) = Inr resp" "names_sentinel (tool_calls resp)"
  shows "\<exists>st'. proto_loop env fm (Suc n) st = Some (Returned st')
          \<and> the_context st' = the_context st
          \<and> messages st' = messages st @ [AssistantDict (content resp) (tool_calls resp)]
          \<and> message_list st' = message_list st @
               [Assistant (content resp), ContextDump after_text (the_context st)]"
proof -
  have "tool_calls resp \<noteq> []" using assms(2) by (auto simp: names_sentinel_def)
  then show ?thesis using assms
    by (simp add: Let_def append_message_def append_transcript_def)
qed

lemma proto_unknown_function:
  assumes "json_loads env (tc_arguments tc) = Some a" "map_of fm (tc_name tc) = None"
  shows "proto_tool_calls env fm (tc # tcs) st =
     proto_tool_calls env fm tcs
       (append_message (ToolResponseLog (tc_name tc) (json_dumps env (not_implemented (tc_name tc))))
          (append_transcript (Tool (tc_id tc) (json_dumps env (not_implemented (tc_name tc))))
             (append_message (ToolCallLog (tc_name tc) (tc_arguments tc)) st)))"
  using assms
  by (simp add: Let_def proto_call_def append_message_def append_transcript_def)

lemma exec_unknown_function:
  assumes "tc_name tc \<noteq> ''processing_complete''" "json_loads env (tc_arguments tc) = Some a"
    "map_of fm (tc_name tc) = None"
  shows "exec_tool_calls env fm (tc # tcs) st =
     (Fail (KeyError (tc_name tc)), append_message (FunctionCall (tc_name tc) a) st)"
  using assms by (simp add: Let_def)

lemma exec_malformed:
  assumes "tc_name tc \<noteq> ''processing_complete''" "json_loads env (tc_arguments tc) = None"
  shows "exec_tool_calls env fm (tc # tcs) st = (Fail JSONDecodeError, st)"
  using assms by simp

lemma exec_sentinel_first:
  "tc_name tc = ''processing_complete'' \<Longrightarrow> exec_tool_calls env fm (tc # tcs) st = (Done, st)"
  by simp


text \<open>
  C1. In \<open>PolicyExecutor.execute_plan\<close> the completion function of the registry and
  of the planner prompt, \<open>instructions_complete\<close>, does not end the loop: the test
  is for the name \<open>processing_complete\<close>. On a turn that calls
  \<open>instructions_complete\<close> the run has not returned after that request; the call is
  logged, the function is invoked, its result is logged and fed back, and the run
  returns only on the next response, which has no tool calls. With the name the
  executor does test for, placed second in a turn, the call before it is dispatched
  (stock goes from 100 to 70) before the loop returns.
\<close>

theorem completion_function_is_executed:
  "execute_plan (test_env [turn [sentinel_call], done_response]) test_mapping
     (Suc 0) ''plan'' create_context [] = None
   \<and> execute_plan (test_env [turn [sentinel_call], done_response]) test_mapping
     (Suc (Suc 0)) ''plan'' create_context [] =
       Some (Returned
         \<lparr>the_context = create_context,
          messages = [System (EXECUTOR_PROMPT ''plan''), AssistantContent None,
                      ToolNamed ''call_9'' ''instructions_complete'' ''{status;}'',
                      AssistantContent (Some ''done'')],
          message_list = [ContextDump before_text create_context,
                          FunctionCall ''instructions_complete'' (JObj []),
                          FunctionResponse ''instructions_complete''
                            (JObj [(''status'', JStr ''Instructions complete'')])]\<rparr>)
   \<and> (case execute_plan
               (test_env [turn [a30_call, mk_call ''call_5'' ''processing_complete'' ''{}'']])
               test_mapping (Suc 0) ''plan'' create_context [] of
          Some (Returned st) \<Rightarrow>
            inventory (the_context st) = [(''SKU001'', 70), (''SKU002'', 75), (''SKU003'', 50)]
            \<and> message_list st =
              [ContextDump before_text create_context,
               FunctionCall ''allocate_inventory'' (allocate_args ''ORD002'' ''SKU001'' 30),
               FunctionResponse ''allocate_inventory''
                 (JObj [(''order_id'', JStr ''ORD002''), (''allocated'', JInt 30)])]
        | _ \<Rightarrow> False)"
proof -
  have 1: "execute_plan (test_env [turn [sentinel_call], done_response]) test_mapping
     (Suc 0) ''plan'' create_context [] = None"
    by (simp add: run_defs instructions_complete_def)
  have 2: "execute_plan (test_env [turn [sentinel_call], done_response]) test_mapping
     (Suc (Suc 0)) ''plan'' create_context [] =
       Some (Returned
         \<lparr>the_context = create_context,
          messages = [System (EXECUTOR_PROMPT ''plan''), AssistantContent None,
                      ToolNamed ''call_9'' ''instructions_complete'' ''{status;}'',
                      AssistantContent (Some ''done'')],
          message_list = [ContextDump before_text create_context,
                          FunctionCall ''instructions_complete'' (JObj []),
                          FunctionResponse ''instructions_complete''
                            (JObj [(''status'', JStr ''Instructions complete'')])]\<rparr>)"
    by (simp add: run_defs instructions_complete_def)
  have 3: "(case execute_plan
               (test_env [turn [a30_call, mk_call ''call_5'' ''processing_complete'' ''{}'']])
               test_mapping (Suc 0) ''plan'' create_context [] of
          Some (Returned st) \<Rightarrow>
            inventory (the_context st) = [(''SKU001'', 70), (''SKU002'', 75), (''SKU003'', 50)]
            \<and> message_list st =
              [ContextDump before_text create_context,
               FunctionCall ''allocate_inventory'' (allocate_args ''ORD002'' ''SKU001'' 30),
               FunctionResponse ''allocate_inventory''
                 (JObj [(''order_id'', JStr ''ORD002''), (''allocated'', JInt 30)])]
        | _ \<Rightarrow> False)"
    by (simp add: run_defs allocate_inventory_def dict_get_def create_context_def)
  show ?thesis using 1 2 3 by (intro conjI)
qed

text \<open>
  The prototype does end on \<open>instructions_complete\<close>, wherever it stands in the
  turn, before any call of that turn is dispatched (\<open>proto_sentinel_returns\<close>); in
  the executor a call named \<open>processing_complete\<close> is not dispatched
  (\<open>exec_sentinel_first\<close>).
\<close>

text \<open>
  C2, as stated, fails in the prototype: after a response without tool calls the run
  has not returned; it asks the model again and returns on the second response.
\<close>

theorem prototype_goes_on_without_tool_calls:
  "proto_execute_plan (test_env [thinking_response, turn [sentinel_call]]) test_mapping
     (Suc 0) ''plan'' create_context [] = None
   \<and> proto_execute_plan (test_env [thinking_response, turn [sentinel_call]]) test_mapping
     (Suc (Suc 0)) ''plan'' create_context [] =
       Some (Returned
         \<lparr>the_context = create_context,
          messages = [System (EXECUTOR_PROMPT ''plan''), AssistantDict (Some ''thinking'') [],
                      AssistantDict None [sentinel_call]],
          message_list = [ContextDump before_text create_context, Assistant (Some ''thinking''),
                          Assistant None, ContextDump after_text create_context]\<rparr>)"
  by (simp add: run_defs)

text \<open>
  C2, amended. When the response to the transcript has no tool calls:
  \<open>PolicyExecutor.execute_plan\<close> returns on that turn, the logged list as it was and
  the assistant's content appended to the transcript; the prototype records the
  assistant message and goes on with the next request.
\<close>

theorem no_tool_calls_executor_returns_prototype_continues:
  assumes "client_create env (messages st) = Inr resp" "tool_calls resp = []"
  shows "exec_loop env fm (Suc n) st =
           Some (Returned (append_transcript (AssistantContent (content resp)) st))
       \<and> message_list (append_transcript (AssistantContent (content resp)) st) = message_list st
       \<and> proto_loop env fm (Suc n) st =
           proto_loop env fm n
             (append_message (Assistant (content resp))
                (append_transcript (AssistantDict (content resp) []) st))"
  using assms by (simp add: Let_def append_transcript_def)

theorem no_tool_calls_executor_returns_prototype_continues_witness:
  "client_create (test_env [thinking_response, turn [sentinel_call]]) (messages start_state) =
     Inr thinking_response
   \<and> tool_calls thinking_response = []
   \<and> exec_loop (test_env [thinking_response, turn [sentinel_call]]) test_mapping (Suc 0)
       start_state =
       Some (Returned (append_transcript (AssistantContent (content thinking_response)) start_state))
   \<and> proto_loop (test_env [thinking_response, turn [sentinel_call]]) test_mapping (Suc 0)
       start_state =
       proto_loop (test_env [thinking_response, turn [sentinel_call]]) test_mapping 0
         (append_message (Assistant (content thinking_response))
            (append_transcript (AssistantDict (content thinking_response) []) start_state))"
proof -
  have h1: "client_create (test_env [thinking_response, turn [sentinel_call]])
              (messages start_state) = Inr thinking_response"
    by (simp add: test_env_def scripted_def start_state_def)
  have h2: "tool_calls thinking_response = []"
    by (simp add: thinking_response_def)
  note t = no_tool_calls_executor_returns_prototype_continues [OF h1 h2, of test_mapping 0]
  show ?thesis using h1 h2 t by blast
qed

text \<open>
  C3. In \<open>PolicyExecutor.execute_plan\<close> a call of a name that is not registered
  raises \<open>KeyError\<close> at the lookup \<open>self.function_mapping[function_name]\<close>: the run
  ends with the exception, no tool result is fed back and the second response of the
  script is never asked for.
\<close>

theorem executor_raises_on_unknown_function:
  "execute_plan (test_env [turn [unknown_call], done_response]) test_mapping
     (Suc (Suc 0)) ''plan'' create_context [] =
       Some (Raised (KeyError ''cancel_order'')
         \<lparr>the_context = create_context,
          messages = [System (EXECUTOR_PROMPT ''plan''), AssistantContent None],
          message_list = [ContextDump before_text create_context,
                          FunctionCall ''cancel_order'' (JObj [])]\<rparr>)"
  by (simp add: run_defs)

text \<open>
  The prototype does what C3 says when the arguments parse
  (\<open>proto_unknown_function\<close>): on the same turn it feeds the error payload back and
  goes on to the next turn.
\<close>

lemma prototype_answers_unknown_function:
  "proto_execute_plan (test_env [turn [unknown_call], turn [sentinel_call]]) test_mapping
     (Suc (Suc 0)) ''plan'' create_context [] =
       Some (Returned
         \<lparr>the_context = create_context,
          messages = [System (EXECUTOR_PROMPT ''plan''), AssistantDict None [unknown_call],
                      Tool ''call_1'' ''{error;}'', AssistantDict None [sentinel_call]],
          message_list = [ContextDump before_text create_context, Assistant None,
                          ToolCallLog ''cancel_order'' ''{}'',
                          ToolResponseLog ''cancel_order'' ''{error;}'',
                          Assistant None, ContextDump after_text create_context]\<rparr>)"
  by (simp add: run_defs)

text \<open>
  C4, as stated, fails in the prototype: for a call whose arguments do not parse the
  transcript gets no tool message at all, and the log only the \<open>tool_call\<close> event.
\<close>

theorem prototype_feeds_nothing_back_for_malformed_call:
  "json_loads (test_env []) (tc_arguments malformed_call) = None
   \<and> proto_execute_plan (test_env [turn [malformed_call], turn [sentinel_call]]) test_mapping
     (Suc (Suc 0)) ''plan'' create_context [] =
       Some (Returned
         \<lparr>the_context = create_context,
          messages = [System (EXECUTOR_PROMPT ''plan''), AssistantDict None [malformed_call],
                      AssistantDict None [sentinel_call]],
          message_list = [ContextDump before_text create_context, Assistant None,
                          ToolCallLog ''check_inventory'' malformed_text,
                          Assistant None, ContextDump after_text create_context]\<rparr>)"
  by (simp add: run_defs)

text \<open>In \<open>PolicyExecutor.execute_plan\<close> the same call ends the run: \<open>json.loads\<close> raises.\<close>

lemma executor_raises_on_malformed_arguments:
  "execute_plan (test_env [turn [malformed_call], done_response]) test_mapping
     (Suc (Suc 0)) ''plan'' create_context [] =
       Some (Raised JSONDecodeError
         \<lparr>the_context = create_context,
          messages = [System (EXECUTOR_PROMPT ''plan''), AssistantContent None],
          message_list = [ContextDump before_text create_context]\<rparr>)"
  by (simp add: run_defs)

text \<open>
  C4, amended. In the prototype a call whose arguments do not parse is recovered
  locally by skipping it: wherever it stands in the turn, the calls before it are
  processed, the call itself is only logged (no function is invoked, no tool message
  and no \<open>tool_response\<close> event is produced for it), and the calls after it are
  processed from that state.
\<close>

theorem malformed_call_skipped_in_prototype:
  assumes "json_loads env (tc_arguments tc) = None"
  shows "proto_tool_calls env fm (xs @ tc # ys) st =
           proto_tool_calls env fm ys
             (append_message (ToolCallLog (tc_name tc) (tc_arguments tc))
                (proto_tool_calls env fm xs st))"
  using assms by (simp add: proto_tool_calls_append Let_def)

theorem malformed_call_skipped_in_prototype_witness:
  "json_loads (test_env []) (tc_arguments malformed_call) = None
   \<and> proto_tool_calls (test_env []) test_mapping ([a80_call] @ malformed_call # [a30_call])
       start_state =
       proto_tool_calls (test_env []) test_mapping [a30_call]
         (append_message
            (ToolCallLog (tc_name malformed_call) (tc_arguments malformed_call))
            (proto_tool_calls (test_env []) test_mapping [a80_call] start_state))
   \<and> messages (proto_tool_calls (test_env []) test_mapping
                  [a80_call, malformed_call, a30_call] start_state) =
       [System ''plan'', Tool ''call_3'' ''{order_id;allocated;}'',
        Tool ''call_4'' ''{order_id;allocated;error;}'']"
proof -
  have h: "json_loads (test_env []) (tc_arguments malformed_call) = None"
    by (simp add: run_defs)
  note t = malformed_call_skipped_in_prototype
             [OF h, of test_mapping "[a80_call]" "[a30_call]" start_state]
  have m: "messages (proto_tool_calls (test_env []) test_mapping
                  [a80_call, malformed_call, a30_call] start_state) =
       [System ''plan'', Tool ''call_3'' ''{order_id;allocated;}'',
        Tool ''call_4'' ''{order_id;allocated;error;}'']"
    by (simp add: run_defs allocate_inventory_def dict_get_def create_context_def)
  show ?thesis using h t m by blast
qed

text \<open>
  C8. Both loops process the calls of a turn one after the other, in the order
  returned: processing \<open>xs @ tc # ys\<close> is processing \<open>xs\<close>, then \<open>tc\<close> from the state
  \<open>xs\<close> left, then \<open>ys\<close>; the function of \<open>tc\<close> is applied to the business state
  left by the calls before it. (In the executor the calls after a
  \<open>processing_complete\<close> or after an exception are not reached.)
\<close>

theorem same_turn_calls_run_in_order:
  assumes "json_loads env (tc_arguments tc) = Some a"
  shows "proto_tool_calls env fm (xs @ tc # ys) st =
           proto_tool_calls env fm ys
             (proto_tool_calls env fm [tc] (proto_tool_calls env fm xs st))
       \<and> the_context (proto_tool_calls env fm [tc] (proto_tool_calls env fm xs st)) =
           snd (proto_call fm (tc_name tc) a (the_context (proto_tool_calls env fm xs st)))
       \<and> exec_tool_calls env fm (xs @ tc # ys) st =
           (case exec_tool_calls env fm xs st of
              (Next, st') \<Rightarrow> exec_tool_calls env fm (tc # ys) st'
            | (Done, st') \<Rightarrow> (Done, st')
            | (Fail e, st') \<Rightarrow> (Fail e, st'))
       \<and> (\<forall>f st'. exec_tool_calls env fm xs st = (Next, st')
                    \<and> tc_name tc \<noteq> ''processing_complete''
                    \<and> map_of fm (tc_name tc) = Some f
              \<longrightarrow> the_context (snd (exec_tool_calls env fm [tc] st')) =
                  snd (f a (the_context st')))"
proof -
  have 1: "proto_tool_calls env fm (xs @ tc # ys) st =
           proto_tool_calls env fm ys
             (proto_tool_calls env fm [tc] (proto_tool_calls env fm xs st))"
    using proto_tool_calls_append[of env fm "xs @ [tc]" ys st]
      proto_tool_calls_append[of env fm xs "[tc]" st] by simp
  have 2: "the_context (proto_tool_calls env fm [tc] (proto_tool_calls env fm xs st)) =
           snd (proto_call fm (tc_name tc) a (the_context (proto_tool_calls env fm xs st)))"
    using assms by (rule proto_step_parsed)
  have 3: "exec_tool_calls env fm (xs @ tc # ys) st =
           (case exec_tool_calls env fm xs st of
              (Next, st') \<Rightarrow> exec_tool_calls env fm (tc # ys) st'
            | (Done, st') \<Rightarrow> (Done, st')
            | (Fail e, st') \<Rightarrow> (Fail e, st'))"
    by (rule exec_tool_calls_append)
  have 4: "\<forall>f st'. exec_tool_calls env fm xs st = (Next, st')
                    \<and> tc_name tc \<noteq> ''processing_complete''
                    \<and> map_of fm (tc_name tc) = Some f
              \<longrightarrow> the_context (snd (exec_tool_calls env fm [tc] st')) =
                  snd (f a (the_context st'))"
    using assms exec_step_called by blast
  show ?thesis using 1 2 3 4 by (intro conjI)
qed

theorem same_turn_calls_run_in_order_witness:
  "json_loads (test_env []) (tc_arguments a30_call) = Some (allocate_args ''ORD002'' ''SKU001'' 30)
   \<and> proto_tool_calls (test_env []) test_mapping ([a80_call] @ a30_call # []) start_state =
       proto_tool_calls (test_env []) test_mapping []
         (proto_tool_calls (test_env []) test_mapping [a30_call]
            (proto_tool_calls (test_env []) test_mapping [a80_call] start_state))
   \<and> inventory (the_context
         (proto_tool_calls (test_env []) test_mapping [a80_call, a30_call] start_state)) =
       [(''SKU001'', 20), (''SKU002'', 75), (''SKU003'', 50)]
   \<and> messages (proto_tool_calls (test_env []) test_mapping [a80_call, a30_call] start_state) =
       [System ''plan'', Tool ''call_3'' ''{order_id;allocated;}'',
        Tool ''call_4'' ''{order_id;allocated;error;}'']
   \<and> inventory (the_context
         (proto_tool_calls (test_env []) test_mapping [a30_call, a80_call] start_state)) =
       [(''SKU001'', 70), (''SKU002'', 75), (''SKU003'', 50)]
   \<and> inventory (the_context
         (snd (exec_tool_calls (test_env []) test_mapping [a80_call, a30_call] start_state))) =
       [(''SKU001'', 20), (''SKU002'', 75), (''SKU003'', 50)]"
proof -
  have h: "json_loads (test_env []) (tc_arguments a30_call) =
             Some (allocate_args ''ORD002'' ''SKU001'' 30)"
    by (simp add: run_defs)
  note t = same_turn_calls_run_in_order
             [OF h, of test_mapping "[a80_call]" "[]" start_state, THEN conjunct1]
  have e1: "inventory (the_context
         (proto_tool_calls (test_env []) test_mapping [a80_call, a30_call] start_state)) =
       [(''SKU001'', 20), (''SKU002'', 75), (''SKU003'', 50)]"
    by (simp add: run_defs allocate_inventory_def dict_get_def create_context_def)
  have e2: "messages (proto_tool_calls (test_env []) test_mapping [a80_call, a30_call] start_state) =
       [System ''plan'', Tool ''call_3'' ''{order_id;allocated;}'',
        Tool ''call_4'' ''{order_id;allocated;error;}'']"
    by (simp add: run_defs allocate_inventory_def dict_get_def create_context_def)
  have e3: "inventory (the_context
         (proto_tool_calls (test_env []) test_mapping [a30_call, a80_call] start_state)) =
       [(''SKU001'', 70), (''SKU002'', 75), (''SKU003'', 50)]"
    by (simp add: run_defs allocate_inventory_def dict_get_def create_context_def)
  have e4: "inventory (the_context
         (snd (exec_tool_calls (test_env []) test_mapping [a80_call, a30_call] start_state))) =
       [(''SKU001'', 20), (''SKU002'', 75), (''SKU003'', 50)]"
    by (simp add: run_defs allocate_inventory_def dict_get_def create_context_def)
  show ?thesis using h t e1 e2 e3 e4 by (intro conjI)
qed

section \<open>Saving and loading a plan\<close>

lemma Plan_init_plan_dict: "Plan_init dflt (plan_dict p) = Inr p"
  by (simp add: Plan_init_def plan_dict_def dict_get_def)

text \<open>
  C9. When the JSON library reads back what it writes for the plan's record, and a
  path that was written reads back the text written, a plan saved under a filename
  is loaded under that filename as the same plan: equal in \<open>scenario\<close>,
  \<open>plan_text\<close> and \<open>model_used\<close> (and in \<open>created_at\<close>).
\<close>

theorem plan_save_then_load:
  assumes codec: "json_load io (json_dump io (plan_dict p)) = Some (plan_dict p)"
    and read_after_write:
      "\<forall>path text fs1 fs2. write_file io path text fs1 = Inr fs2 \<longrightarrow> read_file io path fs2 = Inr text"
    and saved: "save io p (Some filename) fs = Inr (path, fs')"
  shows "path = path_join io plans_dir filename
       \<and> load io filename fs' = Inr p
       \<and> (\<exists>q. load io filename fs' = Inr q \<and> scenario q = scenario p
              \<and> plan_text q = plan_text p \<and> model_used q = model_used p)"
proof -
  let ?path = "path_join io plans_dir filename"
  let ?text = "json_dump io (plan_dict p)"
  obtain fs1 where m: "mkdir io (path_parent io ?path) fs = Inr fs1"
    using saved by (cases "mkdir io (path_parent io ?path) fs") (simp_all add: save_def Let_def)
  have w: "write_file io ?path ?text fs1 = Inr fs'" and p: "path = ?path"
    using saved m by (cases "write_file io ?path ?text fs1"; simp add: save_def Let_def)+
  have r: "read_file io ?path fs' = Inr ?text"
    using read_after_write[rule_format, OF w] .
  have l: "load io filename fs' = Inr p"
    by (simp add: load_def Let_def r codec Plan_init_plan_dict)
  show ?thesis using p l by simp
qed

lemma test_codec: "json_load test_io (json_dump test_io (plan_dict test_plan)) = Some (plan_dict test_plan)"
  by (simp add: test_io_def lines_dump_def lines_load_def plan_dict_def test_plan_def str_split_def)


lemma test_raw: "\<forall>path text fs1 fs2. write_file test_io path text fs1 = Inr fs2 \<longrightarrow> read_file test_io path fs2 = Inr text"
  by (auto simp: test_io_def)

lemma test_saved: "save test_io test_plan (Some ''p.json'') Map.empty =
   Inr (''run_results/plans/p.json'',
        [''run_results/plans/p.json'' \<mapsto> json_dump test_io (plan_dict test_plan)])"
  by (simp add: save_def test_io_def plans_dir_def Let_def)

theorem plan_save_then_load_witness: "save test_io test_plan (Some ''p.json'') Map.empty =
   Inr (''run_results/plans/p.json'',
        [''run_results/plans/p.json'' \<mapsto> json_dump test_io (plan_dict test_plan)])
  \<and> load test_io ''p.json''
        [''run_results/plans/p.json'' \<mapsto> json_dump test_io (plan_dict test_plan)] = Inr test_plan"
proof -
  have "load test_io ''p.json''
        [''run_results/plans/p.json'' \<mapsto> json_dump test_io (plan_dict test_plan)] = Inr test_plan"
    using plan_save_then_load [OF test_codec test_raw test_saved] by (rule conjunct2 [THEN conjunct1])
  then show ?thesis using test_saved by (rule conjI [rotated])
qed

end
